theory Spec2Isabelle
  imports Main "HOL-Library.Sublist"
begin

section \<open>The DuckDuckGo fallback skill\<close>

text \<open>
  A shallow embedding of \<^verbatim>\<open>src/__init__.py\<close>: the sentence splitter
  \<^verbatim>\<open>split_sentences\<close> and the methods \<^verbatim>\<open>format_related\<close>,
  \<^verbatim>\<open>query_ddg\<close>, \<^verbatim>\<open>extract_topic\<close>, \<^verbatim>\<open>CQS_match_query_phrase\<close>
  and \<^verbatim>\<open>handle_ask_ducky\<close> of \<^verbatim>\<open>DuckduckgoSkill\<close>.

  Python strings are modelled as \<open>string\<close> (a list of 8-bit characters); case mapping and
  white space are the ones Python applies to ASCII text. A Python exception is a value
  \<open>Inl e\<close> of a sum type, a loop that may run forever is a function in the option monad
  whose value \<open>None\<close> means that the call does not return.
\<close>

subsection \<open>Python string primitives used by the skill\<close>

datatype py_error = IndexError | ConnectionError | ParseError

text \<open>\<^verbatim>\<open>s.replace(old, new)\<close>: every non-overlapping occurrence, scanning from the left.
  With an empty \<^verbatim>\<open>old\<close> Python inserts \<^verbatim>\<open>new\<close> around every character.\<close>

fun py_replace :: "string \<Rightarrow> string \<Rightarrow> string \<Rightarrow> string" where
  "py_replace old new [] = (if old = [] then new else [])"
| "py_replace old new (c # cs) =
     (if old = [] then new @ c # py_replace old new cs
      else if take (length old) (c # cs) = old
        then new @ py_replace old new (drop (length old) (c # cs))
      else c # py_replace old new cs)"

text \<open>\<^verbatim>\<open>s.split(sep)\<close> for a non-empty separator: the pieces between the non-overlapping
  occurrences of \<^verbatim>\<open>sep\<close>, always at least one piece. The accumulator holds the piece
  being read. (The skill only splits at the literals \<^verbatim>\<open>', '\<close>, \<^verbatim>\<open>' '\<close> and
  \<^verbatim>\<open>'. '\<close>.)\<close>

fun py_split_acc :: "string \<Rightarrow> string \<Rightarrow> string \<Rightarrow> string list" where
  "py_split_acc sep acc [] = [acc]"
| "py_split_acc sep acc (c # cs) =
     (if sep \<noteq> [] \<and> take (length sep) (c # cs) = sep
        then acc # py_split_acc sep [] (drop (length sep) (c # cs))
      else py_split_acc sep (acc @ [c]) cs)"

definition py_split :: "string \<Rightarrow> string \<Rightarrow> string list" where
  "py_split sep s = py_split_acc sep [] s"

text \<open>\<^verbatim>\<open>sep.join(xs)\<close>.\<close>

fun py_join :: "string \<Rightarrow> string list \<Rightarrow> string" where
  "py_join sep [] = []"
| "py_join sep [x] = x"
| "py_join sep (x # y # ys) = x @ sep @ py_join sep (y # ys)"

text \<open>White space as \<^verbatim>\<open>str.isspace\<close> sees it on ASCII: tab, line feed, vertical tab,
  form feed, carriage return, the four separators 28 to 31, and the space.\<close>

definition is_space :: "char \<Rightarrow> bool" where
  "is_space c = (let n = (of_char c :: nat) in (9 \<le> n \<and> n \<le> 13) \<or> (28 \<le> n \<and> n \<le> 32))"

text \<open>\<^verbatim>\<open>s.split()\<close> with no argument: the maximal runs of characters that are not
  white space.\<close>

fun py_words_acc :: "string \<Rightarrow> string \<Rightarrow> string list" where
  "py_words_acc acc [] = (if acc = [] then [] else [acc])"
| "py_words_acc acc (c # cs) =
     (if is_space c then (if acc = [] then py_words_acc [] cs else acc # py_words_acc [] cs)
      else py_words_acc (acc @ [c]) cs)"

definition py_words :: "string \<Rightarrow> string list" where
  "py_words s = py_words_acc [] s"

text \<open>\<^verbatim>\<open>s.strip()\<close>.\<close>

definition py_strip :: "string \<Rightarrow> string" where
  "py_strip s = rev (dropWhile is_space (rev (dropWhile is_space s)))"

definition is_upper :: "char \<Rightarrow> bool" where
  "is_upper c = (let n = (of_char c :: nat) in 65 \<le> n \<and> n \<le> 90)"

definition is_lower :: "char \<Rightarrow> bool" where
  "is_lower c = (let n = (of_char c :: nat) in 97 \<le> n \<and> n \<le> 122)"

definition lower_char :: "char \<Rightarrow> char" where
  "lower_char c = (if is_upper c then char_of (of_char c + (32 :: nat)) else c)"

definition upper_char :: "char \<Rightarrow> char" where
  "upper_char c = (if is_lower c then char_of (of_char c - (32 :: nat)) else c)"

text \<open>\<^verbatim>\<open>s.lower()\<close>.\<close>

definition py_lower :: "string \<Rightarrow> string" where
  "py_lower s = map lower_char s"

text \<open>\<^verbatim>\<open>s.title()\<close>: a letter that follows a letter is lowered, any other letter is
  raised. The flag says whether the previous character was a letter.\<close>

fun py_title_from :: "bool \<Rightarrow> string \<Rightarrow> string" where
  "py_title_from prev [] = []"
| "py_title_from prev (c # cs) =
     (if is_upper c \<or> is_lower c
        then (if prev then lower_char c else upper_char c) # py_title_from True cs
      else c # py_title_from False cs)"

definition py_title :: "string \<Rightarrow> string" where
  "py_title s = py_title_from False s"

text \<open>\<^verbatim>\<open>s[-n:]\<close>: the last \<open>n\<close> characters, the whole string when it is shorter.\<close>

definition py_last_n :: "nat \<Rightarrow> string \<Rightarrow> string" where
  "py_last_n n s = drop (length s - n) s"

subsection \<open>split_sentences\<close>

text \<open>\<^verbatim>\<open>re.sub(r' ([^ .])\.', r' \1~.~', text)\<close>: a space, one character that is neither a
  space nor a period, and a period; the scan resumes after each match.\<close>

fun protect_initials :: "string \<Rightarrow> string" where
  "protect_initials (a # c # d # rest) =
     (if a = CHR '' '' \<and> c \<noteq> CHR '' '' \<and> c \<noteq> CHR ''.'' \<and> d = CHR ''.''
        then CHR '' '' # c # ''~.~'' @ protect_initials rest
      else a # protect_initials (c # d # rest))"
| "protect_initials s = s"

text \<open>The last statement reads \<^verbatim>\<open>sents[-1][-1]\<close>: on an empty last sentence Python raises
  \<^verbatim>\<open>IndexError\<close>. The list \<^verbatim>\<open>sents\<close> itself is never empty.\<close>

definition split_sentences :: "string \<Rightarrow> py_error + string list" where
  "split_sentences text0 =
     (let text1 = protect_initials text0;
          text2 = py_replace ''Inc.'' ''Inc~.~'' text1;
          text3 = py_replace ''! '' ''. '' text2;
          text4 = py_replace ''? '' ''. '' text3;
          sents0 = py_split ''. '' text4;
          sents = map (py_replace ''~.~'' ''.'') sents0
      in if last sents = [] then Inl IndexError
         else if last (last sents) \<in> set ''.!?''
           then Inr (butlast sents @ [butlast (last sents)])
         else Inr sents)"

subsection \<open>Data: API responses, the skill's word lists, the outside world\<close>

text \<open>A related topic (\<^verbatim>\<open>response.related[i]\<close>) with its \<^verbatim>\<open>text\<close> and \<^verbatim>\<open>url\<close>.\<close>

record related_topic =
  topic_text :: string
  topic_url :: string

text \<open>The fields of a \<^verbatim>\<open>ddg.Results\<close> object that the skill reads. \<open>answer_text\<close> is
  \<open>None\<close> when \<^verbatim>\<open>response.answer\<close> is \<^verbatim>\<open>None\<close>, and otherwise
  \<^verbatim>\<open>response.answer.text\<close>; \<open>abstract_text\<close> is \<^verbatim>\<open>response.abstract.text\<close>.\<close>

record response =
  response_type :: string
  answer_text :: "string option"
  abstract_text :: string
  related :: "related_topic list"

text \<open>The attributes set by \<^verbatim>\<open>__init__\<close> from the locale files.\<close>

record skill =
  sorted_vocab :: "string list"
  translated_question_words :: "string list"
  translated_question_verbs :: "string list"
  translated_articles :: "string list"
  translated_start_words :: "string list"

definition is_verb :: string where
  "is_verb = '' is ''"

definition in_word :: string where
  "in_word = ''in ''"

text \<open>The three calls that leave the process: \<^verbatim>\<open>ddg.query(query)\<close>, which sends the
  primary search request, \<^verbatim>\<open>requests.get(url).content\<close>, and the parse
  \<^verbatim>\<open>ddg.Results(ElementTree.fromstring(body))\<close> of a fetched body. Each one returns
  or raises.\<close>

record world =
  ddg_query :: "string \<Rightarrow> py_error + response"
  requests_get :: "string \<Rightarrow> py_error + string"
  ddg_results :: "string \<Rightarrow> py_error + response"

text \<open>The outbound HTTP requests of an invocation, in order.\<close>

datatype http_call = Query string | Get string

subsection \<open>format_related\<close>

text \<open>\<^verbatim>\<open>while ans[-1] == '.': ans = ans[:-1]\<close>. Reading \<^verbatim>\<open>ans[-1]\<close> of the empty
  string raises.\<close>

function strip_dots :: "string \<Rightarrow> py_error + string" where
  "strip_dots ans =
     (if ans = [] then Inl IndexError
      else if last ans = CHR ''.'' then strip_dots (butlast ans)
      else Inr ans)"
  by pat_completeness auto
termination
  by (relation "measure length") auto

text \<open>The loop of lines 86 to 89,
  \<^verbatim>\<open>while last_word in start_words or last_word[-3:] == 'ing'\<close>. When \<^verbatim>\<open>ans\<close> has no
  space the replacement changes nothing and the loop does not end.\<close>

partial_function (option) strip_last_words :: "string list \<Rightarrow> string \<Rightarrow> string \<Rightarrow> string option" where
  "strip_last_words start_words ans last_word =
     (if last_word \<in> set start_words \<or> py_last_n 3 last_word = ''ing''
        then strip_last_words start_words
               (py_replace (CHR '' '' # last_word) [] ans)
               (last (py_split '' '' (py_replace (CHR '' '' # last_word) [] ans)))
      else Some ans)"

text \<open>\<^verbatim>\<open>re.search(r'\(([a-z ]+)\)', ans)\<close>: the leftmost opening parenthesis that is
  followed by a non-empty run of lower-case letters and spaces and then a closing
  parenthesis. The result is the start offset and the text of group 1; the first argument
  is the offset of the string being scanned.\<close>

definition is_category_char :: "char \<Rightarrow> bool" where
  "is_category_char c = (is_lower c \<or> c = CHR '' '')"

fun search_category :: "nat \<Rightarrow> string \<Rightarrow> (nat \<times> string) option" where
  "search_category i [] = None"
| "search_category i (c # cs) =
     (if c = CHR ''('' \<and> takeWhile is_category_char cs \<noteq> []
         \<and> take 1 (dropWhile is_category_char cs) = '')''
        then Some (i + 1, takeWhile is_category_char cs)
      else search_category (i + 1) cs)"

text \<open>\<^verbatim>\<open>words.index(article)\<close> for an article that occurs in \<^verbatim>\<open>words\<close>.\<close>

definition py_index :: "string list \<Rightarrow> string \<Rightarrow> nat" where
  "py_index ws a = length (takeWhile (\<lambda>w. w \<noteq> a) ws)"

text \<open>The loop over the articles of lines 100 to 108; \<open>limit\<close> is
  \<^verbatim>\<open>2 * len(query.split())\<close>. The loop ends at the first article found early enough.\<close>

fun insert_is_verb :: "string list \<Rightarrow> string list \<Rightarrow> nat \<Rightarrow> string \<Rightarrow> string" where
  "insert_is_verb [] ws limit ans = ans"
| "insert_is_verb (a # as) ws limit ans =
     (let article = py_title a in
      if article \<in> set ws \<and> py_index ws article \<le> limit
        then (let index = py_index ws article;
                  name = take index ws;
                  desc = drop index ws
              in py_join '' '' name @ is_verb @ py_join '' '' (py_lower (hd desc) # tl desc))
      else insert_is_verb as ws limit ans)"

text \<open>Lines 77 to 89: the treatment of an abstract that ends in two periods.\<close>

definition trim_truncated :: "skill \<Rightarrow> string \<Rightarrow> (py_error + string) option" where
  "trim_truncated cfg ans =
     (if py_last_n 2 ans = ''..'' then
        (case strip_dots ans of
           Inl e \<Rightarrow> Some (Inl e)
         | Inr ans1 \<Rightarrow>
             (let phrases = py_split '', '' ans1;
                  first = py_join '', '' (butlast phrases)
              in case py_words (last phrases) of
                   [] \<Rightarrow> Some (Inl IndexError)
                 | w # _ \<Rightarrow>
                     (let ans2 = (if w \<in> set (translated_start_words cfg) then first else ans1)
                      in map_option Inr
                           (strip_last_words (translated_start_words cfg) ans2
                              (last (py_split '' '' ans2))))))
      else Some (Inr ans))"

text \<open>Lines 91 to 115, on the text left by the first part.\<close>

definition finish_related :: "skill \<Rightarrow> string \<Rightarrow> string \<Rightarrow> py_error + string" where
  "finish_related cfg query ans0 =
     (let found = (case search_category 0 ans0 of
                     None \<Rightarrow> None
                   | Some (start, grp) \<Rightarrow> if start \<le> length query * 2 then Some grp else None);
          ans1 = (case found of
                    None \<Rightarrow> ans0
                  | Some category \<Rightarrow> py_replace (''('' @ category @ '')'') ''()'' ans0);
          ans2 = insert_is_verb (translated_articles cfg) (py_words ans1)
                   (2 * length (py_words query)) ans1;
          ans3 = (case found of
                    None \<Rightarrow> ans2
                  | Some category \<Rightarrow> py_replace ''()'' (in_word @ category) ans2)
      in if ans3 = [] then Inl IndexError
         else if last ans3 \<notin> set ''.?!'' then Inr (ans3 @ ''.'')
         else Inr ans3)"

definition format_related :: "skill \<Rightarrow> string \<Rightarrow> string \<Rightarrow> (py_error + string) option" where
  "format_related cfg abstract query =
     (case trim_truncated cfg abstract of
        None \<Rightarrow> None
      | Some (Inl e) \<Rightarrow> Some (Inl e)
      | Some (Inr ans) \<Rightarrow> Some (finish_related cfg query ans))"

subsection \<open>query_ddg\<close>

text \<open>\<^verbatim>\<open>sub in s\<close> on strings.\<close>

fun py_in :: "string \<Rightarrow> string \<Rightarrow> bool" where
  "py_in sub [] = (sub = [])"
| "py_in sub (c # cs) = (take (length sub) (c # cs) = sub \<or> py_in sub cs)"

text \<open>Lines 141 to 149: on a disambiguation result with a related topic the detailed
  document is fetched from the first topic's URL and, when the body is not empty, parsed
  and taken as the response. Neither the fetch nor the parse is inside a
  \<^verbatim>\<open>try\<close>. The function returns the requests it sent and the response to work on.\<close>

definition fetch_detailed :: "world \<Rightarrow> response \<Rightarrow> http_call list \<times> (py_error + response)" where
  "fetch_detailed w resp =
     (if response_type resp = ''disambiguation'' \<and> related resp \<noteq> [] then
        (let detailed_url = topic_url (hd (related resp)) @ ''?o=x'' in
         case requests_get w detailed_url of
           Inl e \<Rightarrow> ([Get detailed_url], Inl e)
         | Inr detailed_response \<Rightarrow>
             (if detailed_response \<noteq> [] then
                (case ddg_results w detailed_response of
                   Inl e \<Rightarrow> ([Get detailed_url], Inl e)
                 | Inr resp' \<Rightarrow> ([Get detailed_url], Inr resp'))
              else ([Get detailed_url], Inr resp)))
      else ([], Inr resp))"

text \<open>The test of line 151:
  \<^verbatim>\<open>response.answer is not None and response.answer.text and "HASH" not in response.answer.text\<close>.\<close>

definition has_answer :: "response \<Rightarrow> bool" where
  "has_answer resp =
     (case answer_text resp of None \<Rightarrow> False | Some t \<Rightarrow> t \<noteq> [] \<and> \<not> py_in ''HASH'' t)"

text \<open>Lines 151 to 163: the choice among answer, abstract and first related topic.\<close>

definition select_answer :: "skill \<Rightarrow> string \<Rightarrow> response \<Rightarrow> (py_error + string option) option" where
  "select_answer cfg query resp =
     (if has_answer resp then
        Some (Inr (Some (query @ is_verb @ the (answer_text resp) @ ''.'')))
      else if length (abstract_text resp) > 0 then
        (case split_sentences (abstract_text resp) of
           Inl e \<Rightarrow> Some (Inl e)
         | Inr sents \<Rightarrow> Some (Inr (Some (py_join ''. '' sents))))
      else if length (related resp) > 0 \<and> length (topic_text (hd (related resp))) > 0 then
        (case split_sentences (topic_text (hd (related resp))) of
           Inl e \<Rightarrow> Some (Inl e)
         | Inr sents \<Rightarrow>
             (case format_related cfg (hd sents) query of
                None \<Rightarrow> None
              | Some (Inl e) \<Rightarrow> Some (Inl e)
              | Some (Inr ans) \<Rightarrow> Some (Inr (Some ans))))
      else Some (Inr None))"

text \<open>The whole method. The value is \<open>None\<close> when the call does not return; otherwise
  the HTTP requests sent, and either the exception that leaves the method or the value it
  returns (\<open>None\<close> for Python's \<^verbatim>\<open>None\<close>).\<close>

definition query_ddg ::
  "skill \<Rightarrow> world \<Rightarrow> string \<Rightarrow> (http_call list \<times> (py_error + string option)) option" where
  "query_ddg cfg w query =
     (if length query = 0 then Some ([], Inr None)
      else case ddg_query w query of
        Inl e \<Rightarrow> Some ([Query query], Inr None)
      | Inr resp0 \<Rightarrow>
          (case fetch_detailed w resp0 of
             (calls, Inl e) \<Rightarrow> Some (Query query # calls, Inl e)
           | (calls, Inr resp) \<Rightarrow>
               (case select_answer cfg query resp of
                  None \<Rightarrow> None
                | Some r \<Rightarrow> Some (Query query # calls, r))))"

subsection \<open>extract_topic\<close>

text \<open>The list the innermost loop runs over:
  \<^verbatim>\<open>[i + ' ' for i in self.translated_articles] + ['']\<close>.\<close>

definition article_forms :: "skill \<Rightarrow> string list" where
  "article_forms cfg = map (\<lambda>i. i @ '' '') (translated_articles cfg) @ [[]]"

text \<open>The three nested loops, innermost first. Each returns the topic as soon as a test
  string is a prefix of the query, and \<open>None\<close> when it runs to its end.\<close>

fun topic_articles :: "string \<Rightarrow> string \<Rightarrow> string \<Rightarrow> string list \<Rightarrow> string option" where
  "topic_articles query noun verb [] = None"
| "topic_articles query noun verb (article # rest) =
     (let test = noun @ verb @ '' '' @ article in
      if take (length test) query = test then Some (drop (length test) query)
      else topic_articles query noun verb rest)"

fun topic_verbs :: "skill \<Rightarrow> string \<Rightarrow> string \<Rightarrow> string list \<Rightarrow> string option" where
  "topic_verbs cfg query noun [] = None"
| "topic_verbs cfg query noun (verb # rest) =
     (case topic_articles query noun verb (article_forms cfg) of
        Some t \<Rightarrow> Some t
      | None \<Rightarrow> topic_verbs cfg query noun rest)"

fun topic_nouns :: "skill \<Rightarrow> string \<Rightarrow> string list \<Rightarrow> string option" where
  "topic_nouns cfg query [] = None"
| "topic_nouns cfg query (noun # rest) =
     (case topic_verbs cfg query noun (translated_question_verbs cfg) of
        Some t \<Rightarrow> Some t
      | None \<Rightarrow> topic_nouns cfg query rest)"

definition extract_topic :: "skill \<Rightarrow> string \<Rightarrow> string" where
  "extract_topic cfg query =
     (case topic_nouns cfg query (translated_question_words cfg) of
        Some t \<Rightarrow> t
      | None \<Rightarrow> query)"

subsection \<open>CQS_match_query_phrase\<close>

text \<open>The loops of lines 196 to 202 carry the variable \<^verbatim>\<open>answer\<close> and the requests sent
  so far. The \<^verbatim>\<open>break\<close> leaves the loop over the articles only; the loops over verbs and
  question words go on, and a later match assigns \<^verbatim>\<open>answer\<close> again. An exception of
  \<^verbatim>\<open>query_ddg\<close> leaves the method.\<close>

type_synonym cqs_state = "http_call list \<times> string option"

fun cqs_articles ::
  "skill \<Rightarrow> world \<Rightarrow> string \<Rightarrow> string \<Rightarrow> string \<Rightarrow> string list \<Rightarrow> cqs_state
     \<Rightarrow> (http_call list \<times> (py_error + string option)) option" where
  "cqs_articles cfg w query noun verb [] (calls, answer) = Some (calls, Inr answer)"
| "cqs_articles cfg w query noun verb (article # rest) (calls, answer) =
     (let test = noun @ verb @ '' '' @ article in
      if take (length test) query = test then
        (case query_ddg cfg w (drop (length test) query) of
           None \<Rightarrow> None
         | Some (calls', Inl e) \<Rightarrow> Some (calls @ calls', Inl e)
         | Some (calls', Inr answer') \<Rightarrow> Some (calls @ calls', Inr answer'))
      else cqs_articles cfg w query noun verb rest (calls, answer))"

fun cqs_verbs ::
  "skill \<Rightarrow> world \<Rightarrow> string \<Rightarrow> string \<Rightarrow> string list \<Rightarrow> cqs_state
     \<Rightarrow> (http_call list \<times> (py_error + string option)) option" where
  "cqs_verbs cfg w query noun [] (calls, answer) = Some (calls, Inr answer)"
| "cqs_verbs cfg w query noun (verb # rest) (calls, answer) =
     (case cqs_articles cfg w query noun verb (article_forms cfg) (calls, answer) of
        None \<Rightarrow> None
      | Some (calls', Inl e) \<Rightarrow> Some (calls', Inl e)
      | Some (calls', Inr answer') \<Rightarrow> cqs_verbs cfg w query noun rest (calls', answer'))"

fun cqs_nouns ::
  "skill \<Rightarrow> world \<Rightarrow> string \<Rightarrow> string list \<Rightarrow> cqs_state
     \<Rightarrow> (http_call list \<times> (py_error + string option)) option" where
  "cqs_nouns cfg w query [] (calls, answer) = Some (calls, Inr answer)"
| "cqs_nouns cfg w query (noun # rest) (calls, answer) =
     (case cqs_verbs cfg w query noun (translated_question_verbs cfg) (calls, answer) of
        None \<Rightarrow> None
      | Some (calls', Inl e) \<Rightarrow> Some (calls', Inl e)
      | Some (calls', Inr answer') \<Rightarrow> cqs_nouns cfg w query rest (calls', answer'))"

text \<open>The confidence level \<^verbatim>\<open>CQSMatchLevel.CATEGORY\<close> of the returned triple is a
  constant and is left out: a match is the pair of the query and the answer. An answer
  that is \<^verbatim>\<open>None\<close> or the empty string is falsy and gives \<^verbatim>\<open>None\<close>.\<close>

definition CQS_match_query_phrase ::
  "skill \<Rightarrow> world \<Rightarrow> string
     \<Rightarrow> (http_call list \<times> (py_error + (string \<times> string) option)) option" where
  "CQS_match_query_phrase cfg w query =
     (case cqs_nouns cfg w query (translated_question_words cfg) ([], None) of
        None \<Rightarrow> None
      | Some (calls, Inl e) \<Rightarrow> Some (calls, Inl e)
      | Some (calls, Inr None) \<Rightarrow> Some (calls, Inr None)
      | Some (calls, Inr (Some answer)) \<Rightarrow>
          (if answer \<noteq> [] then Some (calls, Inr (Some (query, answer)))
           else Some (calls, Inr None)))"

subsection \<open>handle_ask_ducky\<close>

text \<open>Lines 217 to 224: the topic that the intent handler passes to \<^verbatim>\<open>query_ddg\<close>.\<close>

definition remove_vocab :: "skill \<Rightarrow> string \<Rightarrow> string" where
  "remove_vocab cfg utt = foldl (\<lambda>u voc. py_replace voc [] u) utt (sorted_vocab cfg)"

definition ask_ducky_topic :: "skill \<Rightarrow> string \<Rightarrow> string" where
  "ask_ducky_topic cfg utt0 =
     (let utt1 = remove_vocab cfg utt0;
          utt2 = py_strip utt1;
          utt3 = extract_topic cfg utt2;
          utt4 = py_replace ''an '' [] utt3;
          utt5 = py_replace ''a '' [] utt4;
          utt6 = py_replace ''the '' [] utt5
      in utt6)"

text \<open>What the handler says: \<^verbatim>\<open>speak_dialog\<close> with a dialog name, then
  \<^verbatim>\<open>speak\<close> with the answer.\<close>

datatype speech = SpeakDialog string | Speak string

text \<open>The argument is \<^verbatim>\<open>message.data['utterance']\<close>, which may be \<^verbatim>\<open>None\<close>.\<close>

definition handle_ask_ducky ::
  "skill \<Rightarrow> world \<Rightarrow> string option
     \<Rightarrow> (http_call list \<times> speech list \<times> (py_error + unit)) option" where
  "handle_ask_ducky cfg w utterance =
     (case utterance of
        None \<Rightarrow> Some ([], [], Inr ())
      | Some utt \<Rightarrow>
          (case query_ddg cfg w (ask_ducky_topic cfg utt) of
             None \<Rightarrow> None
           | Some (calls, Inl e) \<Rightarrow> Some (calls, [], Inl e)
           | Some (calls, Inr None) \<Rightarrow> Some (calls, [], Inr ())
           | Some (calls, Inr (Some resp)) \<Rightarrow>
               Some (calls, [SpeakDialog ''ddg.specific.response'', Speak resp], Inr ())))"

declare strip_last_words.simps [code]

subsection \<open>The specification's reading of the two string operations\<close>

text \<open>The combinations that \<^verbatim>\<open>extract_topic\<close> is said to try, in list order: for each
  question word, for each verb, each article form.\<close>

definition is_prefix_of :: "string \<Rightarrow> string \<Rightarrow> bool" where
  "is_prefix_of query test = (take (length test) query = test)"

definition prefix_tests :: "skill \<Rightarrow> string list" where
  "prefix_tests cfg =
     concat (map (\<lambda>noun.
       concat (map (\<lambda>verb.
         map (\<lambda>article. noun @ verb @ '' '' @ article) (article_forms cfg))
         (translated_question_verbs cfg)))
       (translated_question_words cfg))"

text \<open>The remainder after the first combination that is a prefix of the utterance, the
  utterance itself when there is none.\<close>

definition first_match_topic :: "skill \<Rightarrow> string \<Rightarrow> string" where
  "first_match_topic cfg query =
     (case find (is_prefix_of query) (prefix_tests cfg) of
        None \<Rightarrow> query
      | Some test \<Rightarrow> drop (length test) query)"

text \<open>Removal of the first occurrence only, anywhere in the string: what
  \<^verbatim>\<open>s.replace(old, "", 1)\<close> would do.\<close>

fun remove_first :: "string \<Rightarrow> string \<Rightarrow> string" where
  "remove_first old [] = []"
| "remove_first old (c # cs) =
     (if take (length old) (c # cs) = old then drop (length old) (c # cs)
      else c # remove_first old cs)"

text \<open>Removal of every occurrence: the pieces between the occurrences, put together.\<close>

definition remove_all :: "string \<Rightarrow> string \<Rightarrow> string" where
  "remove_all old s = concat (py_split old s)"

subsection \<open>Sample word lists, responses and worlds\<close>

text \<open>English word lists of the shape the skill concatenates: the verbs carry their
  leading space.\<close>

definition english_skill :: skill where
  "english_skill =
     \<lparr>sorted_vocab = [''ask the duck about'', ''duck duck go''],
      translated_question_words = [''who'', ''what''],
      translated_question_verbs = ['' is'', '' are''],
      translated_articles = [''a'', ''an'', ''the'', ''any''],
      translated_start_words = [''and'', ''an'', ''a'', ''the'', ''any'']\<rparr>"

text \<open>The word lists of the specification's example, the verb written without a space,
  and the same lists with the space.\<close>

definition bare_verb_skill :: skill where
  "bare_verb_skill =
     \<lparr>sorted_vocab = [], translated_question_words = [''what''],
      translated_question_verbs = [''is''], translated_articles = [''a'', ''the''],
      translated_start_words = []\<rparr>"

definition spaced_verb_skill :: skill where
  "spaced_verb_skill =
     \<lparr>sorted_vocab = [], translated_question_words = [''what''],
      translated_question_verbs = ['' is''], translated_articles = [''a'', ''the''],
      translated_start_words = []\<rparr>"

text \<open>Word lists in which two verbs extend one another.\<close>

definition overlapping_skill :: skill where
  "overlapping_skill =
     \<lparr>sorted_vocab = [], translated_question_words = [''what''],
      translated_question_verbs = ['' is'', '' is it''], translated_articles = [],
      translated_start_words = []\<rparr>"




definition mercury_topic :: related_topic where
  "mercury_topic =
     \<lparr>topic_text = ''Mercury (planet), The smallest planet in the Solar System...'',
      topic_url = ''https://duckduckgo.com/Mercury_(planet)''\<rparr>"

definition mercury_response :: response where
  "mercury_response =
     \<lparr>response_type = ''disambiguation'', answer_text = None, abstract_text = [],
      related = [mercury_topic]\<rparr>"

text \<open>A world that answers every search with the given response; the detail fetch gives
  the given outcome, and no body parses.\<close>

definition fixed_world :: "response \<Rightarrow> py_error + string \<Rightarrow> world" where
  "fixed_world resp body =
     \<lparr>ddg_query = (\<lambda>q. Inr resp), requests_get = (\<lambda>u. body),
      ddg_results = (\<lambda>b. Inl ParseError)\<rparr>"

text \<open>A world in which the search request fails.\<close>

definition offline_world :: world where
  "offline_world =
     \<lparr>ddg_query = (\<lambda>q. Inl ConnectionError), requests_get = (\<lambda>u. Inl ConnectionError),
      ddg_results = (\<lambda>b. Inl ParseError)\<rparr>"

section \<open>Properties\<close>

subsection \<open>Topic extraction\<close>

lemma find_append_first:
  "find P (xs @ ys) = (case find P xs of None \<Rightarrow> find P ys | Some x \<Rightarrow> Some x)"
  by (induction xs) auto

lemma topic_articles_find:
  "topic_articles query noun verb as =
     map_option (\<lambda>test. drop (length test) query)
       (find (is_prefix_of query) (map (\<lambda>article. noun @ verb @ '' '' @ article) as))"
  by (induction as) (auto simp: is_prefix_of_def Let_def)

lemma topic_verbs_find:
  "topic_verbs cfg query noun vs =
     map_option (\<lambda>test. drop (length test) query)
       (find (is_prefix_of query)
          (concat (map (\<lambda>verb.
             map (\<lambda>article. noun @ verb @ '' '' @ article) (article_forms cfg)) vs)))"
  by (induction vs) (auto simp: topic_articles_find find_append_first split: option.splits)

lemma topic_nouns_find:
  "topic_nouns cfg query ns =
     map_option (\<lambda>test. drop (length test) query)
       (find (is_prefix_of query)
          (concat (map (\<lambda>noun.
             concat (map (\<lambda>verb.
               map (\<lambda>article. noun @ verb @ '' '' @ article) (article_forms cfg))
               (translated_question_verbs cfg))) ns)))"
  by (induction ns) (auto simp: topic_verbs_find find_append_first split: option.splits)

lemma extract_topic_find:
  "extract_topic cfg query =
     (case find (is_prefix_of query) (prefix_tests cfg) of
        None \<Rightarrow> query
      | Some test \<Rightarrow> drop (length test) query)"
  by (simp add: extract_topic_def prefix_tests_def topic_nouns_find split: option.splits)

lemma extract_topic_drop: "\<exists>n. extract_topic cfg query = drop n query"
proof (cases "find (is_prefix_of query) (prefix_tests cfg)")
  case None
  then have "extract_topic cfg query = drop 0 query"
    by (simp add: extract_topic_find)
  then show ?thesis ..
next
  case (Some test)
  then have "extract_topic cfg query = drop (length test) query"
    by (simp add: extract_topic_find)
  then show ?thesis ..
qed

text \<open>
  C5, amended. \<^verbatim>\<open>extract_topic\<close> tries the combinations question word, verb, article
  form in list order (the articles each with a trailing space, then no article) and returns
  the rest of the utterance after the first combination that is a prefix of it, the
  utterance unchanged when none is. The prefix tested is word, verb, a space and the article
  form, with nothing between word and verb: with question words \<open>what\<close>, verbs \<open>is\<close>
  written with its leading space, and articles \<open>a\<close>, \<open>the\<close>, the input
  \<open>what is the earth\<close> gives \<open>earth\<close>, and \<open>earth\<close> gives \<open>earth\<close>.
\<close>

theorem extract_topic_first_match:
  "extract_topic cfg query = first_match_topic cfg query
   \<and> extract_topic spaced_verb_skill ''what is the earth'' = ''earth''
   \<and> extract_topic spaced_verb_skill ''earth'' = ''earth''"
proof -
  have "extract_topic cfg query = first_match_topic cfg query"
    by (simp add: extract_topic_find first_match_topic_def)
  moreover have "extract_topic spaced_verb_skill ''what is the earth'' = ''earth''"
    by code_simp
  moreover have "extract_topic spaced_verb_skill ''earth'' = ''earth''"
    by code_simp
  ultimately show ?thesis by simp
qed

text \<open>
  C5 as the specification states it fails: with the verb list holding \<open>is\<close> without a
  space, the tested prefixes start with \<open>whatis\<close>, none matches, and
  \<open>what is the earth\<close> comes back unchanged.
\<close>

theorem extract_topic_bare_verb_counterexample:
  "extract_topic bare_verb_skill ''what is the earth'' = ''what is the earth''
   \<and> extract_topic bare_verb_skill ''what is the earth'' \<noteq> ''earth''"
  by code_simp

text \<open>
  C10. The result of \<^verbatim>\<open>extract_topic\<close> is a suffix of the query: the query with
  some number of leading characters dropped (none when no prefix matches).
\<close>

theorem extract_topic_suffix:
  "suffix (extract_topic cfg query) query \<and> (\<exists>n. extract_topic cfg query = drop n query)"
proof -
  obtain n where n: "extract_topic cfg query = drop n query"
    using extract_topic_drop by blast
  then have "suffix (extract_topic cfg query) query"
    by (simp add: suffix_drop)
  with n show ?thesis by blast
qed

subsection \<open>Sentence splitting\<close>

text \<open>
  C6. The specification asks that \<^verbatim>\<open>split_sentences\<close> never raises an index error on an
  empty final token; the code reads \<^verbatim>\<open>sents[-1][-1]\<close> unguarded. On the empty text and on
  a text that ends in a period and a space the last piece is empty and the call raises
  \<^verbatim>\<open>IndexError\<close>. A final token of one character is read without error.
\<close>

theorem split_sentences_empty_last_raises:
  "split_sentences [] = Inl IndexError
   \<and> split_sentences ''Hi. '' = Inl IndexError
   \<and> split_sentences ''a'' = Inr [''a'']
   \<and> split_sentences ''.'' = Inr [[]]"
  by code_simp

text \<open>
  C7. On \<open>J. R. R. Tolkien was an author.\<close> the code protects the two periods after
  \<open>R\<close>, each preceded by a space, but not the period after the leading \<open>J\<close>, which no
  space precedes: the text is split there into two sentences. \<open>Earth is a planet.\<close> gives
  the one sentence without its period.
\<close>

theorem split_sentences_leading_initial:
  "split_sentences ''J. R. R. Tolkien was an author.''
     = Inr [''J'', ''R. R. Tolkien was an author'']
   \<and> split_sentences ''Earth is a planet.'' = Inr [''Earth is a planet'']"
  by code_simp

subsection \<open>The topic of the intent handler\<close>

lemma py_split_acc_concat:
  "sep \<noteq> [] \<Longrightarrow> concat (py_split_acc sep acc s) = acc @ py_replace sep [] s"
  by (induction sep acc s rule: py_split_acc.induct) auto

lemma py_replace_remove_all: "old \<noteq> [] \<Longrightarrow> py_replace old [] s = remove_all old s"
  by (simp add: remove_all_def py_split_def py_split_acc_concat)

text \<open>
  C8, amended. In the intent handler, after the trigger vocabulary is removed, the result
  stripped and the topic extracted, the substrings \<open>an \<close>, \<open>a \<close> and \<open>the \<close> are
  removed in this order, each at every occurrence, anywhere in the string: the replacement
  is neither anchored to the start nor limited to the first occurrence. So
  \<open>banana split\<close> becomes \<open>banansplit\<close>.
\<close>

theorem ask_ducky_topic_removes_all:
  "ask_ducky_topic cfg utt =
     remove_all ''the '' (remove_all ''a '' (remove_all ''an ''
       (extract_topic cfg (py_strip (remove_vocab cfg utt)))))
   \<and> ask_ducky_topic english_skill ''banana split'' = ''banansplit''"
proof -
  have "ask_ducky_topic cfg utt =
     remove_all ''the '' (remove_all ''a '' (remove_all ''an ''
       (extract_topic cfg (py_strip (remove_vocab cfg utt)))))"
    by (simp add: ask_ducky_topic_def Let_def py_replace_remove_all)
  moreover have "ask_ducky_topic english_skill ''banana split'' = ''banansplit''"
    by code_simp
  ultimately show ?thesis by simp
qed

text \<open>
  C8 as the specification states it fails: were only the first occurrence of each
  substring removed, \<open>a cat a dog\<close> would become \<open>cat a dog\<close>; the handler makes it
  \<open>cat dog\<close>.
\<close>

theorem ask_ducky_topic_first_only_counterexample:
  "ask_ducky_topic english_skill ''a cat a dog'' = ''cat dog''
   \<and> remove_first ''the '' (remove_first ''a '' (remove_first ''an ''
        (extract_topic english_skill (py_strip (remove_vocab english_skill ''a cat a dog'')))))
      = ''cat a dog''
   \<and> ask_ducky_topic english_skill ''a cat a dog''
      \<noteq> remove_first ''the '' (remove_first ''a '' (remove_first ''an ''
        (extract_topic english_skill (py_strip (remove_vocab english_skill ''a cat a dog'')))))"
  by code_simp

subsection \<open>The search and the choice of the answer\<close>







text \<open>
  C3. \<^verbatim>\<open>query_ddg\<close> returns \<^verbatim>\<open>None\<close> on the empty topic, and then sends no request;
  it returns \<^verbatim>\<open>None\<close> when the primary search call raises, whatever the error. In both
  cases the method returns: no exception leaves it.
\<close>

theorem query_ddg_no_answer:
  "query_ddg cfg w [] = Some ([], Inr None)
   \<and> (query \<noteq> [] \<longrightarrow> ddg_query w query = Inl e
        \<longrightarrow> query_ddg cfg w query = Some ([Query query], Inr None))"
  by (simp add: query_ddg_def)

theorem query_ddg_no_answer_witness:
  "''earth'' \<noteq> [] \<and> ddg_query offline_world ''earth'' = Inl ConnectionError
   \<and> query_ddg english_skill offline_world ''earth'' = Some ([Query ''earth''], Inr None)"
  using query_ddg_no_answer [of english_skill offline_world "''earth''" ConnectionError]
  by (simp add: offline_world_def)







subsection \<open>The detail fetch of a disambiguation result\<close>

lemma fetch_detailed_raises:
  assumes "response_type resp = ''disambiguation''" and "related resp \<noteq> []"
    and "requests_get w (topic_url (hd (related resp)) @ ''?o=x'') = Inl e"
  shows "fetch_detailed w resp = ([Get (topic_url (hd (related resp)) @ ''?o=x'')], Inl e)"
  using assms by (simp add: fetch_detailed_def)

lemma fetch_detailed_empty_body:
  assumes "response_type resp = ''disambiguation''" and "related resp \<noteq> []"
    and "requests_get w (topic_url (hd (related resp)) @ ''?o=x'') = Inr []"
  shows "fetch_detailed w resp = ([Get (topic_url (hd (related resp)) @ ''?o=x'')], Inr resp)"
  using assms by (simp add: fetch_detailed_def)

lemma query_ddg_fetch_raises:
  assumes "query \<noteq> []" and "ddg_query w query = Inr resp"
    and "response_type resp = ''disambiguation''" and "related resp \<noteq> []"
    and "requests_get w (topic_url (hd (related resp)) @ ''?o=x'') = Inl e"
  shows "query_ddg cfg w query =
           Some ([Query query, Get (topic_url (hd (related resp)) @ ''?o=x'')], Inl e)"
  using assms by (simp add: query_ddg_def fetch_detailed_raises)

text \<open>
  C2. The specification asks that a detail fetch that raises falls back to the original
  disambiguation result. The call \<^verbatim>\<open>requests.get\<close> of line 145 stands outside any
  \<^verbatim>\<open>try\<close>: when it raises, the exception leaves \<^verbatim>\<open>query_ddg\<close> and the related-topic
  text is not used. With an empty body the same response is answered from its first
  related topic.
\<close>

theorem query_ddg_detail_fetch_raises:
  "query_ddg english_skill (fixed_world mercury_response (Inl ConnectionError)) ''mercury''
     = Some ([Query ''mercury'', Get ''https://duckduckgo.com/Mercury_(planet)?o=x''],
             Inl ConnectionError)
   \<and> query_ddg english_skill (fixed_world mercury_response (Inr [])) ''mercury''
     = Some ([Query ''mercury'', Get ''https://duckduckgo.com/Mercury_(planet)?o=x''],
             Inr (Some ''Mercury in planet, is the smallest planet in the Solar System.''))"
  by code_simp

subsection \<open>The number of HTTP requests\<close>

lemma fetch_detailed_calls:
  "fetch_detailed w resp = (calls, r) \<Longrightarrow> calls = [] \<or> (\<exists>url. calls = [Get url])"
  by (auto simp: fetch_detailed_def Let_def split: if_splits sum.splits)

lemma query_ddg_calls:
  assumes "query_ddg cfg w query = Some (calls, r)"
  shows "calls = [] \<or> calls = [Query query] \<or> (\<exists>url. calls = [Query query, Get url])"
proof (cases "query = []")
  case True
  with assms show ?thesis by (simp add: query_ddg_def)
next
  case False
  show ?thesis
  proof (cases "ddg_query w query")
    case (Inl e)
    with assms False show ?thesis by (simp add: query_ddg_def)
  next
    case (Inr resp0)
    obtain cs r0 where f: "fetch_detailed w resp0 = (cs, r0)"
      by (cases "fetch_detailed w resp0")
    with assms False Inr have "calls = Query query # cs"
      by (cases r0) (auto simp: query_ddg_def split: option.splits)
    with fetch_detailed_calls [OF f] show ?thesis by auto
  qed
qed

lemma handle_ask_ducky_calls:
  assumes "handle_ask_ducky cfg w utterance = Some (calls, said, r)"
  shows "length calls \<le> 2"
proof (cases utterance)
  case None
  with assms show ?thesis by (simp add: handle_ask_ducky_def)
next
  case (Some utt)
  with assms obtain r' where "query_ddg cfg w (ask_ducky_topic cfg utt) = Some (calls, r')"
    by (auto simp: handle_ask_ducky_def split: option.splits sum.splits)
  from query_ddg_calls [OF this] show ?thesis by auto
qed

text \<open>
  C9. One call of \<^verbatim>\<open>query_ddg\<close> sends at most the search request and one detail
  fetch, and so does the intent handler. In \<^verbatim>\<open>CQS_match_query_phrase\<close> the
  \<^verbatim>\<open>break\<close> of line 202 leaves the loop over the articles only: with the verbs \<open>is\<close>
  and \<open>is it\<close> both prefixes of \<open>what is it like\<close> match, \<^verbatim>\<open>query_ddg\<close> runs twice,
  and one invocation sends two search requests and two detail fetches.
\<close>

theorem CQS_match_query_phrase_queries_twice:
  "CQS_match_query_phrase overlapping_skill (fixed_world mercury_response (Inr []))
       ''what is it like''
     = Some ([Query ''it like'', Get ''https://duckduckgo.com/Mercury_(planet)?o=x'',
              Query ''like'', Get ''https://duckduckgo.com/Mercury_(planet)?o=x''],
             Inr (Some (''what is it like'',
                        ''Mercury (planet), The smallest planet in the Solar System.'')))"
  by code_simp

end
